theory Spec2Isabelle
  imports Complex_Main "HOL-Library.AList" "HOL-Library.Multiset"
begin

section \<open>The AWX job exporter: data model\<close>

text \<open>
  The program (\<^verbatim>\<open>main.go\<close>) polls the AWX REST API, counts the jobs of the
  response per organization, status and joined label names, and sets one Prometheus
  gauge per such triple. The embedding follows the source function by function.

  Strings are byte strings (\<^typ>\<open>string\<close>), as Go's are. Go's \<^verbatim>\<open>int\<close> is
  modelled as \<^typ>\<open>int\<close>: the only arithmetic is the increment of a job count, which
  starts at zero and is bounded by the length of a slice, so it never reaches
  \<open>2^63\<close>; the range of \<^verbatim>\<open>int\<close> is checked where a number is decoded.
\<close>

text \<open>
  Both anonymous structs of \<^verbatim>\<open>AWXJob\<close> are the same Go type,
  \<^verbatim>\<open>struct { Name string `json:"name"` }\<close>.
\<close>

record named =
  Name :: string

text \<open>
  \<^verbatim>\<open>AWXJob\<close>. The field \<^verbatim>\<open>Elapsed float32\<close> is never read by the
  program; its value is not represented, only whether decoding it fails
  (\<open>decode_float32\<close> below).
\<close>

record AWXJob =
  Status :: string
  Labels :: "named list"
  Organization :: named
  JobId :: int

record AWXResponse =
  Results :: "AWXJob list"

text \<open>The three package variables set by \<^verbatim>\<open>loadConfig\<close>, read-only afterwards.\<close>

record config =
  whitelistOrganizations :: "string list"
  whitelistLabels :: "string list"
  whitelistEnabled :: bool

section \<open>The fetcher\<close>

subsection \<open>JSON documents\<close>

text \<open>
  The body of a response is given as the JSON value it parses to: the tokenizer of
  \<^verbatim>\<open>encoding/json\<close> is not modelled. A number literal written with digits only
  (and an optional sign) is \<open>JInt\<close>; one with a fraction or an exponent is
  \<open>JFrac\<close> with its value. An object is the list of its members in document order,
  duplicate keys included.
\<close>

datatype jnumber = JInt int | JFrac rat

datatype json =
    JNull
  | JBool bool
  | JNumber jnumber
  | JString string
  | JArray "json list"
  | JObject "(string \<times> json) list"

datatype error = NewRequestError | TransportError | SyntaxError | UnmarshalTypeError

subsection \<open>Matching object keys with struct tags\<close>

text \<open>
  \<^verbatim>\<open>encoding/json\<close> takes the struct field whose tag equals the key, and otherwise
  the field whose tag equals it up to Unicode simple case folding. All tags of this
  program are lower-case ASCII and pairwise different after folding, so the field of a
  key is the one whose folded tag equals the folded key. \<open>foldName\<close> folds the ASCII
  letters to upper case and the only two non-ASCII code points that fold to an ASCII
  letter: U+017F (bytes C5 BF, folds to S) and U+212A (bytes E2 84 AA, folds to K).
  Other bytes are kept, so \<open>foldName\<close> agrees with the library's on every comparison
  with an ASCII tag.
\<close>

definition upper_ascii :: "char \<Rightarrow> char" where
  "upper_ascii c =
     (case map_of (zip ''abcdefghijklmnopqrstuvwxyz'' ''ABCDEFGHIJKLMNOPQRSTUVWXYZ'') c of
        None \<Rightarrow> c
      | Some u \<Rightarrow> u)"

fun foldName :: "string \<Rightarrow> string" where
  "foldName [] = []"
| "foldName (c # cs) =
     (if c = CHR 0xC5 \<and> take 1 cs = [CHR 0xBF] then CHR ''S'' # foldName (drop 1 cs)
      else if c = CHR 0xE2 \<and> take 2 cs = [CHR 0x84, CHR 0xAA]
        then CHR ''K'' # foldName (drop 2 cs)
      else upper_ascii c # foldName cs)"

definition is_field :: "string \<Rightarrow> string \<Rightarrow> bool" where
  "is_field tag key = (foldName key = foldName tag)"

subsection \<open>Decoding into the Go types\<close>

text \<open>
  Each decoder takes the JSON value and the current value of the destination and
  returns the new value, or the error. JSON \<open>null\<close> leaves a string, a number or a
  struct as it is and makes a slice nil. A value of the wrong kind is an
  \<^verbatim>\<open>UnmarshalTypeError\<close>; the library goes on decoding after it and reports the
  first such error at the end, and \<^verbatim>\<open>fetchAWXJobData\<close> then drops the result, so
  the model stops at the first one.
\<close>

fun decode_string :: "json \<Rightarrow> string \<Rightarrow> error + string" where
  "decode_string (JString s) cur = Inr s"
| "decode_string JNull cur = Inr cur"
| "decode_string v cur = Inl UnmarshalTypeError"

fun decode_int :: "json \<Rightarrow> int \<Rightarrow> error + int" where
  "decode_int (JNumber (JInt i)) cur =
     (if - (2 ^ 63) \<le> i \<and> i < 2 ^ 63 then Inr i else Inl UnmarshalTypeError)"
| "decode_int JNull cur = Inr cur"
| "decode_int v cur = Inl UnmarshalTypeError"

text \<open>
  The value of a number literal. A number decodes into a \<^verbatim>\<open>float32\<close> unless it
  rounds to an infinity, that is unless its magnitude is at least \<open>2^128 - 2^103\<close>.
\<close>

fun number_value :: "jnumber \<Rightarrow> rat" where
  "number_value (JInt i) = of_int i"
| "number_value (JFrac r) = r"

definition fits_float32 :: "rat \<Rightarrow> bool" where
  "fits_float32 r = (\<bar>r\<bar> < 2 ^ 128 - 2 ^ 103)"

fun decode_float32 :: "json \<Rightarrow> error + unit" where
  "decode_float32 (JNumber n) =
     (if fits_float32 (number_value n) then Inr () else Inl UnmarshalTypeError)"
| "decode_float32 JNull = Inr ()"
| "decode_float32 v = Inl UnmarshalTypeError"

text \<open>
  The members of an object are decoded in document order, each into the field its key
  selects; \<open>field\<close> is the struct's table of fields.
\<close>

fun decode_object ::
  "(string \<Rightarrow> json \<Rightarrow> 'a \<Rightarrow> error + 'a) \<Rightarrow> (string \<times> json) list \<Rightarrow> 'a \<Rightarrow> error + 'a" where
  "decode_object field [] cur = Inr cur"
| "decode_object field ((k, v) # kvs) cur =
     (case field k v cur of
        Inl e \<Rightarrow> Inl e
      | Inr cur' \<Rightarrow> decode_object field kvs cur')"

text \<open>
  A slice in memory is a pair: the elements up to its length, and the elements between
  its length and its capacity that an earlier decode has written (the memory behind
  them is zero). The library decodes the \<open>i\<close>-th element of an array into the
  \<open>i\<close>-th element of that memory, not into a fresh element: below the length this is
  the element the slice holds, from the length to the capacity it is what an earlier,
  longer array has left there, and beyond it is a zero element. The slice then has the
  length of the array, and the memory behind it is kept. This shows only when a body
  repeats a member, so that a slice is decoded more than once. The empty array makes a
  new empty slice, and \<open>null\<close> makes the slice nil; both give up the memory.
\<close>

fun decode_elems ::
  "(json \<Rightarrow> 'a \<Rightarrow> error + 'a) \<Rightarrow> 'a \<Rightarrow> json list \<Rightarrow> 'a list \<Rightarrow> error + 'a list" where
  "decode_elems dec zero [] mem = Inr []"
| "decode_elems dec zero (v # vs) mem =
     (case dec v (case mem of [] \<Rightarrow> zero | x # rest \<Rightarrow> x) of
        Inl e \<Rightarrow> Inl e
      | Inr x \<Rightarrow>
          (case decode_elems dec zero vs (tl mem) of
             Inl e \<Rightarrow> Inl e
           | Inr xs \<Rightarrow> Inr (x # xs)))"

fun decode_slice ::
  "(json \<Rightarrow> 'a \<Rightarrow> error + 'a) \<Rightarrow> 'a \<Rightarrow> json \<Rightarrow> 'a list \<times> 'a list \<Rightarrow>
   error + 'a list \<times> 'a list" where
  "decode_slice dec zero (JArray []) cur = Inr ([], [])"
| "decode_slice dec zero (JArray vs) cur =
     (case decode_elems dec zero vs (fst cur @ snd cur) of
        Inl e \<Rightarrow> Inl e
      | Inr xs \<Rightarrow> Inr (xs, drop (length vs) (fst cur @ snd cur)))"
| "decode_slice dec zero JNull cur = Inr ([], [])"
| "decode_slice dec zero v cur = Inl UnmarshalTypeError"

definition zero_named :: named where
  "zero_named = \<lparr>Name = ''''\<rparr>"

definition named_field :: "string \<Rightarrow> json \<Rightarrow> named \<Rightarrow> error + named" where
  "named_field k v cur =
     (if is_field ''name'' k then
        (case decode_string v (Name cur) of
           Inl e \<Rightarrow> Inl e
         | Inr s \<Rightarrow> Inr (cur\<lparr>Name := s\<rparr>))
      else Inr cur)"

fun decode_named :: "json \<Rightarrow> named \<Rightarrow> error + named" where
  "decode_named (JObject kvs) cur = decode_object named_field kvs cur"
| "decode_named JNull cur = Inr cur"
| "decode_named v cur = Inl UnmarshalTypeError"

definition zero_AWXJob :: AWXJob where
  "zero_AWXJob = \<lparr>Status = '''', Labels = [], Organization = zero_named, JobId = 0\<rparr>"

text \<open>
  A job in memory: the job, and the memory between the length and the capacity of its
  \<^verbatim>\<open>Labels\<close>. The zero job has a nil slice.
\<close>

record AWXJob_mem =
  mem_job :: AWXJob
  Labels_spare :: "named list"

definition zero_AWXJob_mem :: AWXJob_mem where
  "zero_AWXJob_mem = \<lparr>mem_job = zero_AWXJob, Labels_spare = []\<rparr>"

text \<open>The fields of \<^verbatim>\<open>AWXJob\<close> with their tags; a key that selects no field is skipped.\<close>

definition AWXJob_field :: "string \<Rightarrow> json \<Rightarrow> AWXJob_mem \<Rightarrow> error + AWXJob_mem" where
  "AWXJob_field k v cur =
     (if is_field ''status'' k then
        (case decode_string v (Status (mem_job cur)) of
           Inl e \<Rightarrow> Inl e
         | Inr s \<Rightarrow> Inr (cur\<lparr>mem_job := (mem_job cur)\<lparr>Status := s\<rparr>\<rparr>))
      else if is_field ''summary_fields.labels'' k then
        (case decode_slice decode_named zero_named v (Labels (mem_job cur), Labels_spare cur) of
           Inl e \<Rightarrow> Inl e
         | Inr ls \<Rightarrow> Inr \<lparr>mem_job = (mem_job cur)\<lparr>Labels := fst ls\<rparr>, Labels_spare = snd ls\<rparr>)
      else if is_field ''summary_fields.organization'' k then
        (case decode_named v (Organization (mem_job cur)) of
           Inl e \<Rightarrow> Inl e
         | Inr org \<Rightarrow> Inr (cur\<lparr>mem_job := (mem_job cur)\<lparr>Organization := org\<rparr>\<rparr>))
      else if is_field ''id'' k then
        (case decode_int v (JobId (mem_job cur)) of
           Inl e \<Rightarrow> Inl e
         | Inr i \<Rightarrow> Inr (cur\<lparr>mem_job := (mem_job cur)\<lparr>JobId := i\<rparr>\<rparr>))
      else if is_field ''elapsed'' k then
        (case decode_float32 v of
           Inl e \<Rightarrow> Inl e
         | Inr u \<Rightarrow> Inr cur)
      else Inr cur)"

fun decode_AWXJob_mem :: "json \<Rightarrow> AWXJob_mem \<Rightarrow> error + AWXJob_mem" where
  "decode_AWXJob_mem (JObject kvs) cur = decode_object AWXJob_field kvs cur"
| "decode_AWXJob_mem JNull cur = Inr cur"
| "decode_AWXJob_mem v cur = Inl UnmarshalTypeError"

text \<open>
  Decoding into a job whose \<^verbatim>\<open>Labels\<close> have no spare capacity, as those of the
  zero job: the job that results.
\<close>

definition decode_AWXJob :: "json \<Rightarrow> AWXJob \<Rightarrow> error + AWXJob" where
  "decode_AWXJob v cur =
     (case decode_AWXJob_mem v \<lparr>mem_job = cur, Labels_spare = []\<rparr> of
        Inl e \<Rightarrow> Inl e
      | Inr m \<Rightarrow> Inr (mem_job m))"

text \<open>
  The response in memory: its jobs in memory, and the memory between the length and the
  capacity of \<^verbatim>\<open>Results\<close>.
\<close>

record AWXResponse_mem =
  mem_Results :: "AWXJob_mem list"
  Results_spare :: "AWXJob_mem list"

definition AWXResponse_field ::
  "string \<Rightarrow> json \<Rightarrow> AWXResponse_mem \<Rightarrow> error + AWXResponse_mem" where
  "AWXResponse_field k v cur =
     (if is_field ''results'' k then
        (case decode_slice decode_AWXJob_mem zero_AWXJob_mem v (mem_Results cur, Results_spare cur) of
           Inl e \<Rightarrow> Inl e
         | Inr js \<Rightarrow> Inr \<lparr>mem_Results = fst js, Results_spare = snd js\<rparr>)
      else Inr cur)"

fun decode_AWXResponse :: "json \<Rightarrow> AWXResponse_mem \<Rightarrow> error + AWXResponse_mem" where
  "decode_AWXResponse (JObject kvs) cur = decode_object AWXResponse_field kvs cur"
| "decode_AWXResponse JNull cur = Inr cur"
| "decode_AWXResponse v cur = Inl UnmarshalTypeError"

subsection \<open>\<^verbatim>\<open>fetchAWXJobData\<close>\<close>

text \<open>
  What the network does is an input of the model: \<^verbatim>\<open>http.NewRequest\<close> fails, or
  \<^verbatim>\<open>client.Do\<close> fails (no connection, timeout, too many redirects), or there is a
  response with a status code and a body. \<^verbatim>\<open>client.Do\<close> returns no error for a
  status outside 200..299. A body is \<open>Undecodable\<close> when the decoder cannot read one
  JSON value from it (a syntax error, an early end, a read error).

  The body is decoded into \<^verbatim>\<open>var result AWXResponse\<close>, a response with a nil
  slice. The caller reads the jobs and their labels up to the lengths of the slices
  only, so the result is given without the memory behind them.
\<close>

datatype body = Undecodable | Document json

datatype http_outcome = NewRequestFailed | DoFailed | Responded nat body

fun fetchAWXJobData :: "http_outcome \<Rightarrow> error + AWXResponse" where
  "fetchAWXJobData NewRequestFailed = Inl NewRequestError"
| "fetchAWXJobData DoFailed = Inl TransportError"
| "fetchAWXJobData (Responded status Undecodable) = Inl SyntaxError"
| "fetchAWXJobData (Responded status (Document v)) =
     (case decode_AWXResponse v \<lparr>mem_Results = [], Results_spare = []\<rparr> of
        Inl e \<Rightarrow> Inl e
      | Inr result \<Rightarrow> Inr \<lparr>Results = map mem_job (mem_Results result)\<rparr>)"

section \<open>The whitelist filter\<close>

fun contains :: "string list \<Rightarrow> string \<Rightarrow> bool" where
  "contains [] item = False"
| "contains (element # slice) item = (if element = item then True else contains slice item)"

text \<open>The loop over \<^verbatim>\<open>jobLabels\<close> in \<^verbatim>\<open>isWhitelisted\<close>.\<close>

fun label_loop :: "config \<Rightarrow> string list \<Rightarrow> bool" where
  "label_loop cfg [] = False"
| "label_loop cfg (label # jobLabels) =
     (if contains (whitelistLabels cfg) label then True else label_loop cfg jobLabels)"

definition isWhitelisted :: "config \<Rightarrow> string \<Rightarrow> string list \<Rightarrow> bool" where
  "isWhitelisted cfg organization jobLabels =
     (if \<not> contains (whitelistOrganizations cfg) organization then False
      else label_loop cfg jobLabels)"

section \<open>The aggregator\<close>

text \<open>\<^verbatim>\<open>strings.Join\<close>.\<close>

fun Join :: "string list \<Rightarrow> string \<Rightarrow> string" where
  "Join [] sep = ''''"
| "Join [x] sep = x"
| "Join (x # y # ys) sep = x @ sep @ Join (y # ys) sep"

text \<open>
  A Go map is modelled as an association list with pairwise different keys:
  \<open>map_of\<close> reads a key, \<open>AList.update\<close> assigns to one (in place when the key is
  there, at the end otherwise). Reading a missing key gives the zero value.
\<close>

type_synonym label_counts = "(string \<times> int) list"
type_synonym status_counts = "(string \<times> label_counts) list"
type_synonym org_counts = "(string \<times> status_counts) list"

definition at_org :: "org_counts \<Rightarrow> string \<Rightarrow> status_counts" where
  "at_org m org = (case map_of m org of None \<Rightarrow> [] | Some sm \<Rightarrow> sm)"

definition at_status :: "status_counts \<Rightarrow> string \<Rightarrow> label_counts" where
  "at_status sm status = (case map_of sm status of None \<Rightarrow> [] | Some lm \<Rightarrow> lm)"

definition at_labels :: "label_counts \<Rightarrow> string \<Rightarrow> int" where
  "at_labels lm labels = (case map_of lm labels of None \<Rightarrow> 0 | Some c \<Rightarrow> c)"

text \<open>
  Lines 163 to 170: the two inner maps are made when missing, then the count of the
  key is incremented. The inner maps are reached only through the outer one, so
  updating them in place is writing them back.
\<close>

definition count_job :: "string \<Rightarrow> string \<Rightarrow> string \<Rightarrow> org_counts \<Rightarrow> org_counts" where
  "count_job orgName jobStatus combinedLabels m =
     (let m1 = (if map_of m orgName = None then AList.update orgName [] m else m);
          m2 = (if map_of (at_org m1 orgName) jobStatus = None
                then AList.update orgName (AList.update jobStatus [] (at_org m1 orgName)) m1
                else m1);
          lm = at_status (at_org m2 orgName) jobStatus
      in AList.update orgName
           (AList.update jobStatus
              (AList.update combinedLabels (at_labels lm combinedLabels + 1) lm)
              (at_org m2 orgName))
           m2)"

text \<open>
  What the program does besides setting gauges, in the order it does it: the call of
  \<^verbatim>\<open>fetchAWXJobData\<close>, the log lines of lines 137 and 156 (the latter with the
  job's identifier), and \<^verbatim>\<open>time.Sleep\<close> with its duration in seconds.
\<close>

datatype event =
    Fetch
  | LogFetchError error
  | LogIgnoring int
  | Sleep nat

text \<open>
  The body of the loop over \<^verbatim>\<open>awxResponse.Results\<close> (lines 143 to 171), on the
  map and the log.
\<close>

definition job_step ::
  "config \<Rightarrow> AWXJob \<Rightarrow> org_counts \<times> event list \<Rightarrow> org_counts \<times> event list" where
  "job_step cfg job acc =
     (let orgName = Name (Organization job);
          jobID = JobId job;
          jobLabels = map Name (Labels job);
          combinedLabels = Join jobLabels '',''
      in if whitelistEnabled cfg \<and> \<not> isWhitelisted cfg orgName jobLabels
         then (fst acc, snd acc @ [LogIgnoring jobID])
         else (count_job orgName (Status job) combinedLabels (fst acc), snd acc))"

fun job_loop ::
  "config \<Rightarrow> AWXJob list \<Rightarrow> org_counts \<times> event list \<Rightarrow> org_counts \<times> event list" where
  "job_loop cfg [] acc = acc"
| "job_loop cfg (job # jobs) acc = job_loop cfg jobs (job_step cfg job acc)"

section \<open>The publisher\<close>

text \<open>
  The gauge vector \<^verbatim>\<open>awxJobsTotal\<close>: one gauge per triple of label values
  (organization, status, job_labels), made by \<^verbatim>\<open>WithLabelValues\<close> when first
  used. \<^verbatim>\<open>float64(count)\<close> is exact for a count below \<open>2^53\<close>. The label values
  come from the decoder, which yields valid UTF-8, so \<^verbatim>\<open>WithLabelValues\<close> does not
  panic.
\<close>

type_synonym gauge_key = "string \<times> string \<times> string"
type_synonym gauges = "gauge_key \<Rightarrow> real option"

definition float64 :: "int \<Rightarrow> real" where
  "float64 c = of_int c"

definition Set_gauge :: "string \<Rightarrow> string \<Rightarrow> string \<Rightarrow> real \<Rightarrow> gauges \<Rightarrow> gauges" where
  "Set_gauge org status labels v g = g((org, status, labels) \<mapsto> v)"

text \<open>
  The three nested loops of lines 174 to 180. Go ranges over a map in an unspecified
  order; the model takes the order of the association list, and
  \<open>publish_any_order\<close> below shows that the order makes no difference.
\<close>

fun publish_labels :: "string \<Rightarrow> string \<Rightarrow> label_counts \<Rightarrow> gauges \<Rightarrow> gauges" where
  "publish_labels org status [] g = g"
| "publish_labels org status ((labels, cnt) # labelMap) g =
     publish_labels org status labelMap (Set_gauge org status labels (float64 cnt) g)"

fun publish_statuses :: "string \<Rightarrow> status_counts \<Rightarrow> gauges \<Rightarrow> gauges" where
  "publish_statuses org [] g = g"
| "publish_statuses org ((status, labelMap) # statusMap) g =
     publish_statuses org statusMap (publish_labels org status labelMap g)"

fun publish :: "org_counts \<Rightarrow> gauges \<Rightarrow> gauges" where
  "publish [] g = g"
| "publish ((org, statusMap) # m) g = publish m (publish_statuses org statusMap g)"

section \<open>The poll loop\<close>

record state =
  gauges_of :: gauges
  trace :: "event list"

text \<open>
  The map of one cycle: made empty (line 141), then filled by the loop over the jobs
  of this cycle's response.
\<close>

definition aggregate :: "config \<Rightarrow> AWXJob list \<Rightarrow> org_counts \<times> event list" where
  "aggregate cfg jobs = job_loop cfg jobs ([], [])"

text \<open>
  One iteration of the \<^verbatim>\<open>for\<close> loop of \<^verbatim>\<open>recordAWXMetrics\<close>, given what the
  network does in it. On a fetch error the iteration ends at \<^verbatim>\<open>continue\<close>
  (line 138); otherwise it ends with \<^verbatim>\<open>time.Sleep(10 * time.Second)\<close>.
\<close>

definition cycle :: "config \<Rightarrow> http_outcome \<Rightarrow> state \<Rightarrow> state" where
  "cycle cfg outcome s =
     (case fetchAWXJobData outcome of
        Inl err \<Rightarrow> s\<lparr>trace := trace s @ [Fetch, LogFetchError err]\<rparr>
      | Inr awxResponse \<Rightarrow>
          (let acc = aggregate cfg (Results awxResponse)
           in \<lparr>gauges_of = publish (fst acc) (gauges_of s),
               trace = trace s @ [Fetch] @ snd acc @ [Sleep 10]\<rparr>))"

text \<open>
  The loop never ends; its runs are modelled by their finite prefixes, one iteration for
  each outcome of the network.
\<close>

fun recordAWXMetrics :: "config \<Rightarrow> http_outcome list \<Rightarrow> state \<Rightarrow> state" where
  "recordAWXMetrics cfg [] s = s"
| "recordAWXMetrics cfg (outcome # outcomes) s =
     recordAWXMetrics cfg outcomes (cycle cfg outcome s)"

text \<open>At the start of the process no gauge exists.\<close>

definition initial_state :: state where
  "initial_state = \<lparr>gauges_of = Map.empty, trace = []\<rparr>"

section \<open>Notions used to state the properties\<close>

subsection \<open>Reading the map of counts\<close>

text \<open>
  The count stored under a key (organization, status, joined labels) of the nested map,
  if the key is in it.
\<close>

definition lookup_key :: "org_counts \<Rightarrow> gauge_key \<Rightarrow> int option" where
  "lookup_key m k =
     (case k of (org, status, labels) \<Rightarrow>
        (case map_of m org of
           None \<Rightarrow> None
         | Some sm \<Rightarrow>
             (case map_of sm status of
                None \<Rightarrow> None
              | Some lm \<Rightarrow> map_of lm labels)))"

text \<open>
  A Go map holds a key once, at each of the three levels.
\<close>

definition wf_statuses :: "status_counts \<Rightarrow> bool" where
  "wf_statuses sm =
     (distinct (map fst sm) \<and>
      (\<forall>status lm. map_of sm status = Some lm \<longrightarrow> distinct (map fst lm)))"

definition wf_counts :: "org_counts \<Rightarrow> bool" where
  "wf_counts m =
     (distinct (map fst m) \<and> (\<forall>org sm. map_of m org = Some sm \<longrightarrow> wf_statuses sm))"

definition count_or_zero :: "int option \<Rightarrow> int" where
  "count_or_zero c = (case c of None \<Rightarrow> 0 | Some n \<Rightarrow> n)"

subsection \<open>Keys and the filter, per job\<close>

text \<open>
  The key under which the loop body counts a job (lines 144 to 151 and 161), and the
  condition under which it reaches line 161 (lines 154 to 159).
\<close>

definition key_of :: "AWXJob \<Rightarrow> gauge_key" where
  "key_of job = (Name (Organization job), Status job, Join (map Name (Labels job)) '','')"

definition passes_filter :: "config \<Rightarrow> AWXJob \<Rightarrow> bool" where
  "passes_filter cfg job =
     (\<not> (whitelistEnabled cfg \<and>
         \<not> isWhitelisted cfg (Name (Organization job)) (map Name (Labels job))))"

text \<open>
  How many jobs of a response pass the filter and have the key \<open>k\<close>.
\<close>

definition occurrences :: "config \<Rightarrow> gauge_key \<Rightarrow> AWXJob list \<Rightarrow> nat" where
  "occurrences cfg k jobs = length (filter (\<lambda>job. passes_filter cfg job \<and> key_of job = k) jobs)"

subsection \<open>The documented shape of the upstream document\<close>

text \<open>
  The specification describes the body of a response as
  \<^verbatim>\<open>{ "results": [ { "id": int, "status": string, "elapsed": number,
  "summary_fields.organization": { "name": string },
  "summary_fields.labels": [ { "name": string } ] } ] }\<close>.
  A \<open>job_doc\<close> holds the five values of one job of such a document, and
  \<open>response_json\<close> is the document. The member names
  \<^verbatim>\<open>summary_fields.organization\<close> and \<^verbatim>\<open>summary_fields.labels\<close> are
  single keys with a dot in them, as in the struct tags.
\<close>

record job_doc =
  doc_id :: int
  doc_status :: string
  doc_elapsed :: jnumber
  doc_organization :: string
  doc_labels :: "string list"

definition named_json :: "string \<Rightarrow> json" where
  "named_json n = JObject [(''name'', JString n)]"

definition job_json :: "job_doc \<Rightarrow> json" where
  "job_json d =
     JObject
       [(''id'', JNumber (JInt (doc_id d))),
        (''status'', JString (doc_status d)),
        (''elapsed'', JNumber (doc_elapsed d)),
        (''summary_fields.organization'', named_json (doc_organization d)),
        (''summary_fields.labels'', JArray (map named_json (doc_labels d)))]"

definition response_json :: "job_doc list \<Rightarrow> json" where
  "response_json docs = JObject [(''results'', JArray (map job_json docs))]"

text \<open>
  The numbers of a job fit the Go types of the fields: the identifier is in the range of
  a 64-bit \<^verbatim>\<open>int\<close>, and the magnitude of the elapsed time is below
  \<open>2^128 - 2^103\<close>, the least that rounds to an infinite \<^verbatim>\<open>float32\<close>.
\<close>

definition representable :: "job_doc \<Rightarrow> bool" where
  "representable d =
     (- (2 ^ 63) \<le> doc_id d \<and> doc_id d < 2 ^ 63 \<and>
      \<bar>number_value (doc_elapsed d)\<bar> < 2 ^ 128 - 2 ^ 103)"

text \<open>
  The job record that carries the values of a \<open>job_doc\<close>.
\<close>

definition record_of :: "job_doc \<Rightarrow> AWXJob" where
  "record_of d =
     \<lparr>Status = doc_status d,
      Labels = map (\<lambda>l. \<lparr>Name = l\<rparr>) (doc_labels d),
      Organization = \<lparr>Name = doc_organization d\<rparr>,
      JobId = doc_id d\<rparr>"

subsection \<open>Sample data\<close>

definition cfg_A :: config where
  "cfg_A = \<lparr>whitelistOrganizations = [''A''], whitelistLabels = [''prod''], whitelistEnabled = True\<rparr>"

definition cfg_off :: config where
  "cfg_off = \<lparr>whitelistOrganizations = [], whitelistLabels = [], whitelistEnabled = False\<rparr>"

definition cfg_listed_off :: config where
  "cfg_listed_off =
     \<lparr>whitelistOrganizations = [''A''], whitelistLabels = [''prod''], whitelistEnabled = False\<rparr>"

definition mk_job :: "int \<Rightarrow> string \<Rightarrow> string \<Rightarrow> string list \<Rightarrow> AWXJob" where
  "mk_job i org status labels =
     \<lparr>Status = status, Labels = map (\<lambda>l. \<lparr>Name = l\<rparr>) labels,
      Organization = \<lparr>Name = org\<rparr>, JobId = i\<rparr>"

definition docs_3 :: "job_doc list" where
  "docs_3 =
     [\<lparr>doc_id = 1, doc_status = ''ok'', doc_elapsed = JFrac (3 / 2),
       doc_organization = ''A'', doc_labels = [''prod'']\<rparr>,
      \<lparr>doc_id = 2, doc_status = ''ok'', doc_elapsed = JInt 4,
       doc_organization = ''A'', doc_labels = [''prod'']\<rparr>,
      \<lparr>doc_id = 3, doc_status = ''failed'', doc_elapsed = JInt 0,
       doc_organization = ''B'', doc_labels = [''dev'']\<rparr>]"

definition doc_long_elapsed :: job_doc where
  "doc_long_elapsed =
     \<lparr>doc_id = 1, doc_status = ''ok'', doc_elapsed = JFrac (10 ^ 39),
      doc_organization = ''A'', doc_labels = [''prod'']\<rparr>"

definition doc_big_id :: job_doc where
  "doc_big_id =
     \<lparr>doc_id = 2 ^ 63, doc_status = ''ok'', doc_elapsed = JInt 0,
      doc_organization = ''A'', doc_labels = [''prod'']\<rparr>"

definition jobs_3 :: "AWXJob list" where
  "jobs_3 =
     [mk_job 1 ''A'' ''ok'' [''prod''], mk_job 2 ''A'' ''ok'' [''prod''],
      mk_job 3 ''B'' ''failed'' [''dev'']]"

definition outcomes_3 :: "http_outcome list" where
  "outcomes_3 =
     [Responded 200 (Document (response_json docs_3)), DoFailed,
      Responded 200 (Document (response_json docs_3))]"

definition state_1 :: state where
  "state_1 = \<lparr>gauges_of = [(''A'', ''ok'', ''prod'') \<mapsto> 2], trace = []\<rparr>"

definition state_2 :: state where
  "state_2 = \<lparr>gauges_of = [(''B'', ''failed'', ''dev'') \<mapsto> 7], trace = []\<rparr>"

definition counts_B :: org_counts where
  "counts_B = [(''B'', [(''failed'', [(''dev'', 1)])])]"



section \<open>Properties of the whitelist predicate\<close>

lemma contains_iff: "contains slice item = (item \<in> set slice)"
  by (induction slice) auto

lemma label_loop_iff: "label_loop cfg jobLabels = (\<exists>l\<in>set jobLabels. l \<in> set (whitelistLabels cfg))"
  by (induction jobLabels) (auto simp: contains_iff)

lemma isWhitelisted_iff:
  "isWhitelisted cfg organization jobLabels =
     (organization \<in> set (whitelistOrganizations cfg) \<and>
      set jobLabels \<inter> set (whitelistLabels cfg) \<noteq> {})"
  by (auto simp add: isWhitelisted_def contains_iff label_loop_iff)

section \<open>Properties of the aggregator\<close>

subsection \<open>Counting one job\<close>

lemma lookup_key_count_job:
  "lookup_key (count_job org status labels m) k =
     (if k = (org, status, labels) then Some (count_or_zero (lookup_key m k) + 1)
      else lookup_key m k)"
  by (cases k)
     (simp add: lookup_key_def count_job_def Let_def at_org_def at_status_def at_labels_def
        count_or_zero_def update_conv' split: option.splits)

lemma wf_statuses_Nil: "wf_statuses []"
  by (simp add: wf_statuses_def)

lemma wf_counts_Nil: "wf_counts []"
  by (simp add: wf_counts_def)

lemma wf_statuses_update:
  "wf_statuses sm \<Longrightarrow> distinct (map fst lm) \<Longrightarrow> wf_statuses (AList.update status lm sm)"
  by (simp add: wf_statuses_def update_conv' distinct_update)

lemma wf_counts_update:
  "wf_counts m \<Longrightarrow> wf_statuses sm \<Longrightarrow> wf_counts (AList.update org sm m)"
  by (simp add: wf_counts_def update_conv' distinct_update)

lemma wf_statuses_at_org: "wf_counts m \<Longrightarrow> wf_statuses (at_org m org)"
  by (simp add: wf_counts_def at_org_def wf_statuses_Nil split: option.splits)

lemma distinct_at_status: "wf_statuses sm \<Longrightarrow> distinct (map fst (at_status sm status))"
  by (simp add: wf_statuses_def at_status_def split: option.splits)

lemma wf_counts_count_job:
  assumes "wf_counts m"
  shows "wf_counts (count_job org status labels m)"
proof -
  define m1 where "m1 = (if map_of m org = None then AList.update org [] m else m)"
  define m2 where "m2 = (if map_of (at_org m1 org) status = None
                then AList.update org (AList.update status [] (at_org m1 org)) m1
                else m1)"
  have w1: "wf_counts m1"
    using assms by (simp add: m1_def wf_counts_update wf_statuses_Nil)
  have w2: "wf_counts m2"
    using w1 by (simp add: m2_def wf_counts_update wf_statuses_update wf_statuses_at_org)
  have "wf_counts (AList.update org
           (AList.update status
              (AList.update labels (at_labels (at_status (at_org m2 org) status) labels + 1)
                 (at_status (at_org m2 org) status))
              (at_org m2 org))
           m2)"
    using w2
    by (intro wf_counts_update wf_statuses_update wf_statuses_at_org)
       (simp_all add: distinct_update distinct_at_status wf_statuses_at_org)
  then show ?thesis
    unfolding count_job_def Let_def m2_def m1_def .
qed

subsection \<open>The loop over the jobs\<close>

lemma fst_job_step:
  "fst (job_step cfg job acc) =
     (if passes_filter cfg job
      then count_job (Name (Organization job)) (Status job)
             (Join (map Name (Labels job)) '','') (fst acc)
      else fst acc)"
  by (simp add: job_step_def passes_filter_def Let_def)

lemma snd_job_step:
  "snd (job_step cfg job acc) =
     (if passes_filter cfg job then snd acc else snd acc @ [LogIgnoring (JobId job)])"
  by (simp add: job_step_def passes_filter_def Let_def)

lemma lookup_key_job_step:
  "lookup_key (fst (job_step cfg job acc)) k =
     (if passes_filter cfg job \<and> key_of job = k
      then Some (count_or_zero (lookup_key (fst acc) k) + 1)
      else lookup_key (fst acc) k)"
  by (auto simp add: fst_job_step lookup_key_count_job key_of_def)

lemma lookup_key_job_loop:
  "lookup_key (fst (job_loop cfg jobs acc)) k =
     (if occurrences cfg k jobs = 0 then lookup_key (fst acc) k
      else Some (count_or_zero (lookup_key (fst acc) k) + int (occurrences cfg k jobs)))"
proof (induction jobs arbitrary: acc)
  case Nil
  then show ?case by (simp add: occurrences_def)
next
  case (Cons job jobs)
  show ?case
  proof (cases "passes_filter cfg job \<and> key_of job = k")
    case True
    then have "occurrences cfg k (job # jobs) = Suc (occurrences cfg k jobs)"
      by (simp add: occurrences_def)
    with True show ?thesis
      by (simp add: Cons.IH lookup_key_job_step count_or_zero_def)
  next
    case False
    then have "occurrences cfg k (job # jobs) = occurrences cfg k jobs"
      by (auto simp add: occurrences_def)
    with False show ?thesis
      by (auto simp add: Cons.IH lookup_key_job_step)
  qed
qed

lemma wf_counts_job_loop: "wf_counts (fst acc) \<Longrightarrow> wf_counts (fst (job_loop cfg jobs acc))"
  by (induction jobs arbitrary: acc) (simp_all add: fst_job_step wf_counts_count_job)

lemma snd_job_loop:
  "snd (job_loop cfg jobs acc) =
     snd acc @ map (\<lambda>job. LogIgnoring (JobId job)) (filter (\<lambda>job. \<not> passes_filter cfg job) jobs)"
  by (induction jobs arbitrary: acc) (simp_all add: snd_job_step)

lemma lookup_key_Nil: "lookup_key [] k = None"
  by (cases k) (simp add: lookup_key_def)

lemma lookup_key_aggregate:
  "lookup_key (fst (aggregate cfg jobs)) k =
     (if occurrences cfg k jobs = 0 then None else Some (int (occurrences cfg k jobs)))"
  by (simp add: aggregate_def lookup_key_job_loop lookup_key_Nil count_or_zero_def)

lemma wf_counts_aggregate: "wf_counts (fst (aggregate cfg jobs))"
  by (simp add: aggregate_def wf_counts_job_loop wf_counts_Nil)

lemma occurrences_pos_iff:
  "(0 < occurrences cfg k jobs) = (\<exists>job\<in>set jobs. passes_filter cfg job \<and> key_of job = k)"
  by (auto simp add: occurrences_def filter_empty_conv)

lemma job_step_disabled:
  "\<not> whitelistEnabled cfg \<Longrightarrow>
   job_step cfg job acc =
     (count_job (Name (Organization job)) (Status job) (Join (map Name (Labels job)) '','')
        (fst acc), snd acc)"
  by (simp add: job_step_def Let_def)

lemma job_loop_disabled:
  "\<not> whitelistEnabled cfg \<Longrightarrow> \<not> whitelistEnabled cfg' \<Longrightarrow>
   job_loop cfg jobs acc = job_loop cfg' jobs acc"
  by (induction jobs arbitrary: acc) (simp_all add: job_step_disabled)

lemma occurrences_disabled:
  "\<not> whitelistEnabled cfg \<Longrightarrow>
   occurrences cfg k jobs = length (filter (\<lambda>job. key_of job = k) jobs)"
  by (simp add: occurrences_def passes_filter_def)

subsection \<open>Joining label names\<close>

text \<open>
  Two lists of the same length whose elements are free of the separator are equal when
  their joins are.
\<close>

lemma append_sep_eq:
  "c \<notin> set x \<Longrightarrow> c \<notin> set y \<Longrightarrow> x @ c # r = y @ c # r' \<Longrightarrow> x = y \<and> r = r'"
proof (induction x arbitrary: y)
  case Nil
  then show ?case by (cases y) auto
next
  case (Cons a x)
  then show ?case by (cases y) auto
qed

lemma Join_comma_inj:
  "length xs = length ys \<Longrightarrow>
   \<forall>x\<in>set xs. CHR '','' \<notin> set x \<Longrightarrow> \<forall>y\<in>set ys. CHR '','' \<notin> set y \<Longrightarrow>
   Join xs '','' = Join ys '','' \<Longrightarrow> xs = ys"
proof (induction xs ys rule: list_induct2)
  case Nil
  then show ?case by simp
next
  case (Cons x xs y ys)
  show ?case
  proof (cases xs)
    case Nil
    with Cons.hyps have "ys = []" by simp
    with Nil Cons.prems show ?thesis by simp
  next
    case xs: (Cons x' xs')
    with Cons.hyps obtain y' ys' where ys: "ys = y' # ys'" by (cases ys) auto
    from Cons.prems(3) xs ys
    have e: "x @ CHR '','' # Join xs '','' = y @ CHR '','' # Join ys '',''"
      by simp
    from Cons.prems have cx: "CHR '','' \<notin> set x" and cy: "CHR '','' \<notin> set y"
      by simp_all
    from append_sep_eq [OF cx cy e] have xy: "x = y" and j: "Join xs '','' = Join ys '',''"
      by simp_all
    from Cons.prems have "\<forall>x\<in>set xs. CHR '','' \<notin> set x" "\<forall>y\<in>set ys. CHR '','' \<notin> set y"
      by simp_all
    then have "xs = ys" using j by (rule Cons.IH)
    with xy show ?thesis by simp
  qed
qed

section \<open>Properties of the publisher\<close>

lemma publish_labels_apply:
  "distinct (map fst lm) \<Longrightarrow>
   publish_labels org status lm g (org', status', labels') =
     (if org' = org \<and> status' = status then
        (case map_of lm labels' of
           None \<Rightarrow> g (org', status', labels')
         | Some c \<Rightarrow> Some (float64 c))
      else g (org', status', labels'))"
proof (induction lm arbitrary: g)
  case Nil
  then show ?case by simp
next
  case (Cons p lm)
  obtain l c where p: "p = (l, c)" by (cases p)
  from Cons.prems p have "map_of lm l = None"
    by (simp add: map_of_eq_None_iff)
  with Cons p show ?case
    by (auto simp add: Set_gauge_def split: option.splits)
qed

lemma wf_statuses_Cons:
  "wf_statuses ((status, lm) # sm) =
     (map_of sm status = None \<and> distinct (map fst lm) \<and> wf_statuses sm)"
proof
  assume wf: "wf_statuses ((status, lm) # sm)"
  then have none: "map_of sm status = None"
    by (simp add: wf_statuses_def map_of_eq_None_iff)
  from wf have "map_of ((status, lm) # sm) status = Some lm \<longrightarrow> distinct (map fst lm)"
    unfolding wf_statuses_def by blast
  then have dl: "distinct (map fst lm)" by simp
  have "wf_statuses sm"
    unfolding wf_statuses_def
  proof (intro conjI allI impI)
    show "distinct (map fst sm)" using wf by (simp add: wf_statuses_def)
  next
    fix status' lm'
    assume a: "map_of sm status' = Some lm'"
    with none have "status' \<noteq> status" by auto
    with a have "map_of ((status, lm) # sm) status' = Some lm'" by simp
    with wf show "distinct (map fst lm')" unfolding wf_statuses_def by blast
  qed
  with none dl show "map_of sm status = None \<and> distinct (map fst lm) \<and> wf_statuses sm"
    by simp
next
  assume "map_of sm status = None \<and> distinct (map fst lm) \<and> wf_statuses sm"
  then show "wf_statuses ((status, lm) # sm)"
    by (auto simp add: wf_statuses_def map_of_eq_None_iff)
qed

lemma wf_counts_Cons:
  "wf_counts ((org, sm) # m) =
     (map_of m org = None \<and> wf_statuses sm \<and> wf_counts m)"
proof
  assume wf: "wf_counts ((org, sm) # m)"
  then have none: "map_of m org = None"
    by (simp add: wf_counts_def map_of_eq_None_iff)
  from wf have "map_of ((org, sm) # m) org = Some sm \<longrightarrow> wf_statuses sm"
    unfolding wf_counts_def by blast
  then have ws: "wf_statuses sm" by simp
  have "wf_counts m"
    unfolding wf_counts_def
  proof (intro conjI allI impI)
    show "distinct (map fst m)" using wf by (simp add: wf_counts_def)
  next
    fix org' sm'
    assume a: "map_of m org' = Some sm'"
    with none have "org' \<noteq> org" by auto
    with a have "map_of ((org, sm) # m) org' = Some sm'" by simp
    with wf show "wf_statuses sm'" unfolding wf_counts_def by blast
  qed
  with none ws show "map_of m org = None \<and> wf_statuses sm \<and> wf_counts m"
    by simp
next
  assume "map_of m org = None \<and> wf_statuses sm \<and> wf_counts m"
  then show "wf_counts ((org, sm) # m)"
    by (auto simp add: wf_counts_def map_of_eq_None_iff)
qed

lemma publish_statuses_apply:
  "wf_statuses sm \<Longrightarrow>
   publish_statuses org sm g (org', status', labels') =
     (if org' = org then
        (case map_of sm status' of
           None \<Rightarrow> g (org', status', labels')
         | Some lm \<Rightarrow>
             (case map_of lm labels' of
                None \<Rightarrow> g (org', status', labels')
              | Some c \<Rightarrow> Some (float64 c)))
      else g (org', status', labels'))"
proof (induction sm arbitrary: g)
  case Nil
  then show ?case by simp
next
  case (Cons p sm)
  obtain st lm where p: "p = (st, lm)" by (cases p)
  from Cons.prems p have none: "map_of sm st = None" and dl: "distinct (map fst lm)"
    and wf: "wf_statuses sm"
    by (simp_all add: wf_statuses_Cons)
  show ?case
    using none by (auto simp add: p Cons.IH [OF wf] publish_labels_apply [OF dl] split: option.splits)
qed

text \<open>
  After publishing a map, a gauge whose key is in the map holds the count of the key, and
  every other gauge is as it was.
\<close>

lemma publish_apply:
  "wf_counts m \<Longrightarrow>
   publish m g k = (case lookup_key m k of None \<Rightarrow> g k | Some c \<Rightarrow> Some (float64 c))"
proof (induction m arbitrary: g)
  case Nil
  then show ?case by (simp add: lookup_key_Nil)
next
  case (Cons p m)
  obtain org sm where p: "p = (org, sm)" by (cases p)
  obtain org' status' labels' where k: "k = (org', status', labels')" by (cases k)
  from Cons.prems p have none: "map_of m org = None" and ws: "wf_statuses sm"
    and wf: "wf_counts m"
    by (simp_all add: wf_counts_Cons)
  have "publish (p # m) g k =
          (case lookup_key m k of
             None \<Rightarrow> publish_statuses org sm g k
           | Some c \<Rightarrow> Some (float64 c))"
    by (simp add: p Cons.IH [OF wf])
  also have "\<dots> = (case lookup_key ((org, sm) # m) k of None \<Rightarrow> g k | Some c \<Rightarrow> Some (float64 c))"
    using none
    by (auto simp add: k publish_statuses_apply [OF ws] lookup_key_def split: option.splits)
  finally show ?case by (simp add: p)
qed

text \<open>
  Two association lists that hold the same Go map, in whatever order, publish the same
  gauges.
\<close>

lemma publish_any_order:
  "wf_counts m \<Longrightarrow> wf_counts m' \<Longrightarrow> lookup_key m = lookup_key m' \<Longrightarrow> publish m g = publish m' g"
  by (rule ext) (simp add: publish_apply)

section \<open>Properties of the poll loop\<close>

lemma gauges_of_cycle:
  "fetchAWXJobData outcome = Inr resp \<Longrightarrow>
   gauges_of (cycle cfg outcome s) = publish (fst (aggregate cfg (Results resp))) (gauges_of s)"
  by (simp add: cycle_def Let_def)

lemma failed_cycle_trace:
  "fetchAWXJobData outcome = Inl err \<Longrightarrow>
   trace (cycle cfg outcome s) = trace s @ [Fetch, LogFetchError err]"
  by (simp add: cycle_def)

lemma successful_cycle_trace:
  "fetchAWXJobData outcome = Inr r \<Longrightarrow>
   \<exists>logs. trace (cycle cfg outcome s) = trace s @ [Fetch] @ logs @ [Sleep 10]"
  by (simp add: cycle_def Let_def)

lemma stale_gauge_kept:
  "(\<And>outcome resp. outcome \<in> set outcomes \<Longrightarrow> fetchAWXJobData outcome = Inr resp \<Longrightarrow>
      lookup_key (fst (aggregate cfg (Results resp))) k = None) \<Longrightarrow>
   gauges_of (recordAWXMetrics cfg outcomes s) k = gauges_of s k"
proof (induction outcomes arbitrary: s)
  case Nil
  then show ?case by simp
next
  case (Cons outcome outcomes)
  have "gauges_of (cycle cfg outcome s) k = gauges_of s k"
  proof (cases "fetchAWXJobData outcome")
    case (Inl err)
    then show ?thesis by (simp add: cycle_def)
  next
    case (Inr resp)
    then have "lookup_key (fst (aggregate cfg (Results resp))) k = None"
      using Cons.prems [of outcome resp] by simp
    with Inr show ?thesis
      by (simp add: gauges_of_cycle publish_apply wf_counts_aggregate)
  qed
  moreover have "gauges_of (recordAWXMetrics cfg outcomes (cycle cfg outcome s)) k =
      gauges_of (cycle cfg outcome s) k"
    using Cons.prems by (intro Cons.IH) auto
  ultimately show ?case by simp
qed


section \<open>Properties of the decoder\<close>

lemma foldName_tags:
  "foldName ''name'' = ''NAME''"
  "foldName ''results'' = ''RESULTS''"
  "foldName ''status'' = ''STATUS''"
  "foldName ''id'' = ''ID''"
  "foldName ''elapsed'' = ''ELAPSED''"
  "foldName ''summary_fields.labels'' = ''SUMMARY_FIELDS.LABELS''"
  "foldName ''summary_fields.organization'' = ''SUMMARY_FIELDS.ORGANIZATION''"
  by (simp_all add: upper_ascii_def)

lemma decode_named_json: "decode_named (named_json n) cur = Inr \<lparr>Name = n\<rparr>"
  by (simp add: named_json_def named_field_def is_field_def)

lemma decode_elems_named:
  "decode_elems decode_named zero_named (map named_json ls) mem =
     Inr (map (\<lambda>l. \<lparr>Name = l\<rparr>) ls)"
  by (induction ls arbitrary: mem) (simp_all add: decode_named_json)

lemma decode_slice_named:
  "decode_slice decode_named zero_named (JArray (map named_json ls)) ([], []) =
     Inr (map (\<lambda>l. \<lparr>Name = l\<rparr>) ls, [])"
proof (cases ls)
  case Nil
  then show ?thesis by simp
next
  case (Cons l ls')
  have "decode_elems decode_named zero_named (map named_json (l # ls')) [] =
          Inr (map (\<lambda>l. \<lparr>Name = l\<rparr>) (l # ls'))"
    by (rule decode_elems_named)
  then show ?thesis by (simp add: Cons)
qed

lemma decode_job_json:
  "representable d \<Longrightarrow>
   decode_AWXJob_mem (job_json d) zero_AWXJob_mem =
     Inr \<lparr>mem_job = record_of d, Labels_spare = []\<rparr>"
  by (simp add: job_json_def AWXJob_field_def is_field_def foldName_tags representable_def
      fits_float32_def decode_named_json decode_slice_named zero_AWXJob_mem_def zero_AWXJob_def
      record_of_def)

text \<open>
  A job of the documented shape whose numbers do not fit is an error, whatever the
  destination holds.
\<close>

lemma decode_job_json_fails:
  "\<not> representable d \<Longrightarrow> decode_AWXJob_mem (job_json d) cur = Inl UnmarshalTypeError"
  by (auto simp add: job_json_def AWXJob_field_def is_field_def foldName_tags representable_def
      fits_float32_def)

lemma decode_elems_jobs:
  "\<forall>d\<in>set docs. representable d \<Longrightarrow>
   decode_elems decode_AWXJob_mem zero_AWXJob_mem (map job_json docs) [] =
     Inr (map (\<lambda>d. \<lparr>mem_job = record_of d, Labels_spare = []\<rparr>) docs)"
  by (induction docs) (simp_all add: decode_job_json)

lemma decode_elems_jobs_fails:
  "\<exists>d\<in>set docs. \<not> representable d \<Longrightarrow>
   \<exists>e. decode_elems decode_AWXJob_mem zero_AWXJob_mem (map job_json docs) mem = Inl e"
proof (induction docs arbitrary: mem)
  case Nil
  then show ?case by simp
next
  case (Cons d docs)
  show ?case
  proof (cases "representable d")
    case False
    then show ?thesis by (simp add: decode_job_json_fails)
  next
    case True
    with Cons.prems have "\<exists>d\<in>set docs. \<not> representable d" by auto
    then obtain e where
      "decode_elems decode_AWXJob_mem zero_AWXJob_mem (map job_json docs) (tl mem) = Inl e"
      using Cons.IH by blast
    then show ?thesis by (simp split: sum.splits)
  qed
qed

lemma fetch_documented:
  "\<forall>d\<in>set docs. representable d \<Longrightarrow>
   fetchAWXJobData (Responded status (Document (response_json docs))) =
     Inr \<lparr>Results = map record_of docs\<rparr>"
proof (cases docs)
  case Nil
  then show ?thesis
    by (simp add: response_json_def AWXResponse_field_def is_field_def)
next
  case (Cons d docs')
  assume "\<forall>d\<in>set docs. representable d"
  then have "decode_elems decode_AWXJob_mem zero_AWXJob_mem (map job_json (d # docs')) [] =
     Inr (map (\<lambda>d. \<lparr>mem_job = record_of d, Labels_spare = []\<rparr>) (d # docs'))"
    unfolding Cons by (rule decode_elems_jobs)
  then show ?thesis
    by (simp add: Cons response_json_def AWXResponse_field_def is_field_def comp_def)
qed

lemma fetch_documented_fails:
  assumes "\<exists>d\<in>set docs. \<not> representable d"
  shows "\<exists>e. fetchAWXJobData (Responded status (Document (response_json docs))) = Inl e"
proof (cases docs)
  case Nil
  with assms show ?thesis by simp
next
  case (Cons d docs')
  from assms obtain e where
    "decode_elems decode_AWXJob_mem zero_AWXJob_mem (map job_json (d # docs')) [] = Inl e"
    unfolding Cons using decode_elems_jobs_fails by blast
  then show ?thesis
    by (simp add: Cons response_json_def AWXResponse_field_def is_field_def)
qed






section \<open>The sample data, evaluated\<close>

lemma fetch_docs_3:
  "fetchAWXJobData (Responded 200 (Document (response_json docs_3))) = Inr \<lparr>Results = jobs_3\<rparr>"
  using fetch_documented [of docs_3 200]
  by (simp add: docs_3_def representable_def record_of_def jobs_3_def mk_job_def)

lemma aggregate_jobs_3_on:
  "aggregate cfg_A jobs_3 = ([(''A'', [(''ok'', [(''prod'', 2)])])], [LogIgnoring 3])"
  by code_simp

lemma aggregate_jobs_3_off:
  "aggregate cfg_off jobs_3 =
     ([(''A'', [(''ok'', [(''prod'', 2)])]), (''B'', [(''failed'', [(''dev'', 1)])])], [])"
  by code_simp

lemma wf_counts_B: "wf_counts counts_B"
  by (simp add: counts_B_def wf_counts_Cons wf_statuses_Cons wf_statuses_Nil wf_counts_Nil)





text \<open>
  A job object that nests the organization inside a \<^verbatim>\<open>summary_fields\<close> object
  is not of the documented shape: the member \<^verbatim>\<open>summary_fields\<close> selects no field
  of \<^verbatim>\<open>AWXJob\<close>, and the organization name stays empty.
\<close>

lemma nested_summary_fields_skipped:
  "decode_AWXJob
     (JObject
        [(''status'', JString ''ok''),
         (''summary_fields'', JObject [(''organization'', JObject [(''name'', JString ''A'')])])])
     zero_AWXJob =
   Inr \<lparr>Status = ''ok'', Labels = [], Organization = \<lparr>Name = ''''\<rparr>, JobId = 0\<rparr>"
  by (simp add: decode_AWXJob_def AWXJob_field_def is_field_def foldName_tags upper_ascii_def
      zero_AWXJob_def zero_named_def)

text \<open>
  A body that repeats a member decodes the later array into the elements the earlier one
  has left: a job object without members keeps the status and labels of the job before
  it, a label object without a name keeps the name, and a third, longer array finds the
  label that the second, shorter one has cut off.
\<close>

lemma repeated_results_member:
  "fetchAWXJobData
     (Responded 200 (Document (JObject
        [(''results'', JArray [JObject [(''status'', JString ''a''),
                                        (''summary_fields.labels'', JArray [named_json ''x''])]]),
         (''results'', JArray [JObject []])]))) =
   Inr \<lparr>Results = [\<lparr>Status = ''a'', Labels = [\<lparr>Name = ''x''\<rparr>],
                       Organization = \<lparr>Name = ''''\<rparr>, JobId = 0\<rparr>]\<rparr>"
  by (simp add: AWXResponse_field_def AWXJob_field_def named_field_def named_json_def is_field_def
      foldName_tags zero_AWXJob_mem_def zero_AWXJob_def zero_named_def)

lemma repeated_labels_member:
  "decode_AWXJob
     (JObject [(''summary_fields.labels'', JArray [named_json ''x'']),
               (''summary_fields.labels'', JArray [JObject []])])
     zero_AWXJob =
   Inr \<lparr>Status = '''', Labels = [\<lparr>Name = ''x''\<rparr>], Organization = \<lparr>Name = ''''\<rparr>, JobId = 0\<rparr>"
  by (simp add: decode_AWXJob_def AWXJob_field_def named_field_def named_json_def is_field_def
      foldName_tags zero_AWXJob_def zero_named_def)

lemma labels_behind_the_length:
  "decode_AWXJob
     (JObject [(''summary_fields.labels'', JArray [named_json ''x'', named_json ''y'']),
               (''summary_fields.labels'', JArray [named_json ''z'']),
               (''summary_fields.labels'', JArray [JObject [], JObject []])])
     zero_AWXJob =
   Inr \<lparr>Status = '''', Labels = [\<lparr>Name = ''z''\<rparr>, \<lparr>Name = ''y''\<rparr>],
        Organization = \<lparr>Name = ''''\<rparr>, JobId = 0\<rparr>"
  by (simp add: decode_AWXJob_def AWXJob_field_def named_field_def named_json_def is_field_def
      foldName_tags zero_AWXJob_def zero_named_def)

section \<open>The claims\<close>

subsection \<open>C1: the sleep after a failed fetch\<close>

text \<open>
  Claim C1 says that a cycle whose fetch fails is followed by the 10 second sleep before
  the next fetch. The program does otherwise: when the network fails twice in a row, the
  second fetch follows the log line of the first directly, and the run contains no sleep
  at all. (A cycle whose fetch succeeds ends with the sleep, see
  \<open>successful_cycle_trace\<close>.)
\<close>

theorem failed_fetch_retried_without_sleep:
  "trace (recordAWXMetrics cfg [DoFailed, DoFailed] initial_state) =
     [Fetch, LogFetchError TransportError, Fetch, LogFetchError TransportError]"
  by (simp add: cycle_def initial_state_def)

subsection \<open>C2: decoding the documented shape\<close>

text \<open>
  Claim C2, amended. For every document of the documented shape in which every job's
  identifier is in the range of a 64-bit integer and every job's elapsed time is below
  \<open>2^128 - 2^103\<close> in magnitude, and whatever the status code of the response, the
  fetch succeeds and returns one job record per job of the document, in order, whose
  organization name is the \<^verbatim>\<open>name\<close> of the nested organization object and whose
  label names are the \<^verbatim>\<open>name\<close>s of the nested label objects, in order (and whose
  status and identifier are those of the document). For a document of the documented
  shape with a job outside these bounds the fetch returns an error.
\<close>

theorem fetch_decodes_documented_shape:
  "((\<forall>d\<in>set docs. representable d) \<longrightarrow>
      (\<exists>r. fetchAWXJobData (Responded status (Document (response_json docs))) = Inr r \<and>
           map (\<lambda>job. Name (Organization job)) (Results r) = map doc_organization docs \<and>
           map (\<lambda>job. map Name (Labels job)) (Results r) = map doc_labels docs \<and>
           map Status (Results r) = map doc_status docs \<and>
           map JobId (Results r) = map doc_id docs)) \<and>
   ((\<exists>d\<in>set docs. \<not> representable d) \<longrightarrow>
      (\<exists>e. fetchAWXJobData (Responded status (Document (response_json docs))) = Inl e))"
proof (intro conjI impI)
  assume "\<forall>d\<in>set docs. representable d"
  then show "\<exists>r. fetchAWXJobData (Responded status (Document (response_json docs))) = Inr r \<and>
           map (\<lambda>job. Name (Organization job)) (Results r) = map doc_organization docs \<and>
           map (\<lambda>job. map Name (Labels job)) (Results r) = map doc_labels docs \<and>
           map Status (Results r) = map doc_status docs \<and>
           map JobId (Results r) = map doc_id docs"
    using fetch_documented [of docs status] by (simp add: record_of_def comp_def)
next
  assume "\<exists>d\<in>set docs. \<not> representable d"
  then show "\<exists>e. fetchAWXJobData (Responded status (Document (response_json docs))) = Inl e"
    by (rule fetch_documented_fails)
qed

theorem fetch_decodes_documented_shape_witness:
  "(\<exists>r. fetchAWXJobData (Responded 200 (Document (response_json docs_3))) = Inr r \<and>
       map (\<lambda>job. Name (Organization job)) (Results r) = [''A'', ''A'', ''B''] \<and>
       map (\<lambda>job. map Name (Labels job)) (Results r) = [[''prod''], [''prod''], [''dev'']] \<and>
       map Status (Results r) = [''ok'', ''ok'', ''failed''] \<and>
       map JobId (Results r) = [1, 2, 3]) \<and>
   \<not> representable doc_long_elapsed \<and>
   (\<exists>e. fetchAWXJobData (Responded 200 (Document (response_json [doc_long_elapsed]))) = Inl e)"
proof -
  note a = fetch_decodes_documented_shape [of docs_3 200]
  note b = fetch_decodes_documented_shape [of "[doc_long_elapsed]" 200]
  have rep: "\<forall>d\<in>set docs_3. representable d"
    by (simp add: docs_3_def representable_def)
  have nrep: "\<not> representable doc_long_elapsed"
    by (simp add: doc_long_elapsed_def representable_def)
  from a rep
  have "\<exists>r. fetchAWXJobData (Responded 200 (Document (response_json docs_3))) = Inr r \<and>
       map (\<lambda>job. Name (Organization job)) (Results r) = map doc_organization docs_3 \<and>
       map (\<lambda>job. map Name (Labels job)) (Results r) = map doc_labels docs_3 \<and>
       map Status (Results r) = map doc_status docs_3 \<and>
       map JobId (Results r) = map doc_id docs_3"
    by blast
  then have ok: "\<exists>r. fetchAWXJobData (Responded 200 (Document (response_json docs_3))) = Inr r \<and>
       map (\<lambda>job. Name (Organization job)) (Results r) = [''A'', ''A'', ''B''] \<and>
       map (\<lambda>job. map Name (Labels job)) (Results r) = [[''prod''], [''prod''], [''dev'']] \<and>
       map Status (Results r) = [''ok'', ''ok'', ''failed''] \<and>
       map JobId (Results r) = [1, 2, 3]"
    by (simp add: docs_3_def)
  from b nrep
  have "\<exists>e. fetchAWXJobData (Responded 200 (Document (response_json [doc_long_elapsed]))) = Inl e"
    by simp
  with ok nrep show ?thesis by blast
qed

text \<open>
  Claim C2 as stated fails: a document of the documented shape whose job has the elapsed
  time \<^verbatim>\<open>1e39\<close>, or the identifier \<open>2^63\<close>, is a fetch error, since the number
  does not fit the \<^verbatim>\<open>float32\<close> or \<^verbatim>\<open>int\<close> field; no job record is
  returned.
\<close>

theorem number_out_of_range_fails_fetch:
  "fetchAWXJobData (Responded 200 (Document (response_json [doc_long_elapsed]))) =
     Inl UnmarshalTypeError \<and>
   fetchAWXJobData (Responded 200 (Document (response_json [doc_big_id]))) =
     Inl UnmarshalTypeError"
  by (simp add: doc_long_elapsed_def doc_big_id_def response_json_def job_json_def named_json_def
      AWXResponse_field_def AWXJob_field_def named_field_def is_field_def foldName_tags
      fits_float32_def zero_AWXJob_mem_def zero_AWXJob_def zero_named_def)

subsection \<open>C3: the status code of the response\<close>



subsection \<open>C4: the whitelist predicate\<close>

text \<open>
  Claim C4. With the whitelist enabled, \<^verbatim>\<open>isWhitelisted\<close> holds exactly when the
  organization is one of the allowed organizations and at least one label of the job is
  one of the allowed labels, by equality of strings (so case-sensitively); a job with no
  label is rejected. The loop body counts the job under exactly this condition and logs
  and skips it otherwise.
\<close>

theorem whitelist_enabled_iff:
  "whitelistEnabled cfg \<Longrightarrow>
     (isWhitelisted cfg organization jobLabels =
        (organization \<in> set (whitelistOrganizations cfg) \<and>
         set jobLabels \<inter> set (whitelistLabels cfg) \<noteq> {})) \<and>
     \<not> isWhitelisted cfg organization [] \<and>
     job_step cfg job (m, tr) =
       (if Name (Organization job) \<in> set (whitelistOrganizations cfg) \<and>
           set (map Name (Labels job)) \<inter> set (whitelistLabels cfg) \<noteq> {}
        then (count_job (Name (Organization job)) (Status job)
                (Join (map Name (Labels job)) '','') m, tr)
        else (m, tr @ [LogIgnoring (JobId job)]))"
  by (simp add: isWhitelisted_iff job_step_def Let_def)

theorem whitelist_enabled_iff_witness:
  "whitelistEnabled cfg_A \<and>
   isWhitelisted cfg_A ''A'' [''dev'', ''prod''] \<and>
   \<not> isWhitelisted cfg_A ''a'' [''prod''] \<and>
   \<not> isWhitelisted cfg_A ''A'' [''Prod''] \<and>
   \<not> isWhitelisted cfg_A ''A'' [] \<and>
   job_step cfg_A (mk_job 7 ''B'' ''failed'' [''dev'']) ([], []) = ([], [LogIgnoring 7])"
  using whitelist_enabled_iff [of cfg_A "''A''" "[''dev'', ''prod'']" "mk_job 7 ''B'' ''failed'' [''dev'']" "[]" "[]"]
    whitelist_enabled_iff [of cfg_A "''a''" "[''prod'']" "mk_job 7 ''B'' ''failed'' [''dev'']" "[]" "[]"]
    whitelist_enabled_iff [of cfg_A "''A''" "[''Prod'']" "mk_job 7 ''B'' ''failed'' [''dev'']" "[]" "[]"]
  by (simp add: cfg_A_def mk_job_def)

subsection \<open>C5: the whitelist disabled\<close>

text \<open>
  Claim C5. With the whitelist disabled the loop body counts every job: no job is logged
  as ignored, the count of a key is the number of all jobs of the response with that key,
  and the result is the same whatever the two allow-lists contain.
\<close>

theorem whitelist_disabled_counts_all:
  "\<not> whitelistEnabled cfg \<Longrightarrow>
     job_step cfg job acc =
       (count_job (Name (Organization job)) (Status job) (Join (map Name (Labels job)) '','')
          (fst acc), snd acc) \<and>
     snd (aggregate cfg jobs) = [] \<and>
     lookup_key (fst (aggregate cfg jobs)) k =
       (if filter (\<lambda>job. key_of job = k) jobs = [] then None
        else Some (int (length (filter (\<lambda>job. key_of job = k) jobs)))) \<and>
     aggregate (cfg\<lparr>whitelistOrganizations := orgs, whitelistLabels := labels\<rparr>) jobs =
       aggregate cfg jobs"
proof (intro conjI)
  assume off: "\<not> whitelistEnabled cfg"
  show "job_step cfg job acc =
       (count_job (Name (Organization job)) (Status job) (Join (map Name (Labels job)) '','')
          (fst acc), snd acc)"
    using off by (rule job_step_disabled)
  have "filter (\<lambda>job. \<not> passes_filter cfg job) jobs = []"
    using off by (simp add: passes_filter_def)
  then show "snd (aggregate cfg jobs) = []"
    by (simp add: aggregate_def snd_job_loop)
  show "lookup_key (fst (aggregate cfg jobs)) k =
       (if filter (\<lambda>job. key_of job = k) jobs = [] then None
        else Some (int (length (filter (\<lambda>job. key_of job = k) jobs))))"
    using off by (simp add: lookup_key_aggregate occurrences_disabled)
  show "aggregate (cfg\<lparr>whitelistOrganizations := orgs, whitelistLabels := labels\<rparr>) jobs =
       aggregate cfg jobs"
    using off
      job_loop_disabled [of "cfg\<lparr>whitelistOrganizations := orgs, whitelistLabels := labels\<rparr>"
        cfg jobs "([], [])"]
    by (simp add: aggregate_def)
qed

theorem whitelist_disabled_counts_all_witness:
  "\<not> whitelistEnabled cfg_listed_off \<and>
   snd (aggregate cfg_listed_off jobs_3) = [] \<and>
   lookup_key (fst (aggregate cfg_listed_off jobs_3)) (''B'', ''failed'', ''dev'') = Some 1 \<and>
   aggregate cfg_listed_off jobs_3 = aggregate cfg_off jobs_3"
proof -
  have off: "\<not> whitelistEnabled cfg_listed_off"
    by (simp add: cfg_listed_off_def)
  have eq: "cfg_listed_off\<lparr>whitelistOrganizations := [], whitelistLabels := []\<rparr> = cfg_off"
    by (simp add: cfg_listed_off_def cfg_off_def)
  have n: "filter (\<lambda>job. key_of job = (''B'', ''failed'', ''dev'')) jobs_3 =
             [mk_job 3 ''B'' ''failed'' [''dev'']]"
    by (simp add: jobs_3_def mk_job_def key_of_def)
  from whitelist_disabled_counts_all [OF off, of "mk_job 3 ''B'' ''failed'' [''dev'']" "([], [])"
      jobs_3 "(''B'', ''failed'', ''dev'')" "[]" "[]"] off
  show ?thesis
    by (simp add: eq n)
qed

subsection \<open>C6: the gauges after a failed fetch\<close>

text \<open>
  Claim C6. A cycle whose fetch returns an error leaves the gauges exactly as they were:
  no gauge is added, overwritten or reset.
\<close>

theorem fetch_error_keeps_gauges:
  "fetchAWXJobData outcome = Inl err \<Longrightarrow> gauges_of (cycle cfg outcome s) = gauges_of s"
  by (simp add: cycle_def)

theorem fetch_error_keeps_gauges_witness:
  "fetchAWXJobData (Responded 200 Undecodable) = Inl SyntaxError \<and>
   gauges_of (cycle cfg_off (Responded 200 Undecodable) state_1) (''A'', ''ok'', ''prod'') = Some 2"
proof -
  have h: "fetchAWXJobData (Responded 200 Undecodable) = Inl SyntaxError" by simp
  show ?thesis
    using h fetch_error_keeps_gauges [OF h, of cfg_off state_1] by (simp add: state_1_def)
qed

subsection \<open>C7: the order of the labels in the key\<close>

text \<open>
  Claim C7, amended. Two jobs with the same organization and status whose lists of label
  names are permutations of each other, are different, and contain no comma in any name,
  and which pass the filter, are counted under two different keys, each with count 1;
  the third component of each key is the job's label names joined with a comma in the
  order of the job.
\<close>

theorem reordered_labels_distinct_keys:
  assumes org: "Name (Organization j1) = Name (Organization j2)"
    and st: "Status j1 = Status j2"
    and perm: "mset (map Name (Labels j1)) = mset (map Name (Labels j2))"
    and diff: "map Name (Labels j1) \<noteq> map Name (Labels j2)"
    and nocomma: "\<forall>l\<in>set (Labels j1). CHR '','' \<notin> set (Name l)"
    and pass: "passes_filter cfg j1"
  shows "Join (map Name (Labels j1)) '','' \<noteq> Join (map Name (Labels j2)) '','' \<and>
     lookup_key (fst (aggregate cfg [j1, j2]))
       (Name (Organization j1), Status j1, Join (map Name (Labels j1)) '','') = Some 1 \<and>
     lookup_key (fst (aggregate cfg [j1, j2]))
       (Name (Organization j2), Status j2, Join (map Name (Labels j2)) '','') = Some 1"
proof -
  from perm have sets: "set (map Name (Labels j1)) = set (map Name (Labels j2))"
    by (rule mset_eq_setD)
  from perm have len: "length (map Name (Labels j1)) = length (map Name (Labels j2))"
    by (rule mset_eq_length)
  from nocomma have c1: "\<forall>x\<in>set (map Name (Labels j1)). CHR '','' \<notin> set x" by simp
  with sets have c2: "\<forall>y\<in>set (map Name (Labels j2)). CHR '','' \<notin> set y" by simp
  from diff Join_comma_inj [OF len c1 c2]
  have ne: "Join (map Name (Labels j1)) '','' \<noteq> Join (map Name (Labels j2)) '',''"
    by blast
  from pass org sets have pass2: "passes_filter cfg j2"
    by (simp add: passes_filter_def isWhitelisted_iff)
  from ne have k: "key_of j1 \<noteq> key_of j2" by (simp add: key_of_def)
  from k have k': "key_of j2 \<noteq> key_of j1" by simp
  from pass pass2 k k' have "occurrences cfg (key_of j1) [j1, j2] = 1"
    and "occurrences cfg (key_of j2) [j1, j2] = 1"
    by (simp_all add: occurrences_def)
  then have "lookup_key (fst (aggregate cfg [j1, j2])) (key_of j1) = Some 1"
    and "lookup_key (fst (aggregate cfg [j1, j2])) (key_of j2) = Some 1"
    by (simp_all add: lookup_key_aggregate)
  with ne show ?thesis by (simp add: key_of_def)
qed

theorem reordered_labels_distinct_keys_witness:
  "mset [''x'', ''y''] = mset [''y'', ''x''] \<and>
   passes_filter cfg_off (mk_job 1 ''A'' ''ok'' [''x'', ''y'']) \<and>
   ''x,y'' \<noteq> ''y,x'' \<and>
   lookup_key (fst (aggregate cfg_off [mk_job 1 ''A'' ''ok'' [''x'', ''y''], mk_job 2 ''A'' ''ok'' [''y'', ''x'']]))
     (''A'', ''ok'', ''x,y'') = Some 1 \<and>
   lookup_key (fst (aggregate cfg_off [mk_job 1 ''A'' ''ok'' [''x'', ''y''], mk_job 2 ''A'' ''ok'' [''y'', ''x'']]))
     (''A'', ''ok'', ''y,x'') = Some 1"
proof -
  have p: "passes_filter cfg_off (mk_job 1 ''A'' ''ok'' [''x'', ''y''])"
    by (simp add: passes_filter_def cfg_off_def)
  have m: "mset [''x'', ''y''] = mset [''y'', ''x'']" by simp
  from reordered_labels_distinct_keys [of "mk_job 1 ''A'' ''ok'' [''x'', ''y'']"
      "mk_job 2 ''A'' ''ok'' [''y'', ''x'']" cfg_off] p m
  show ?thesis
    by (simp add: mk_job_def)
qed

text \<open>
  Claim C7 as stated fails when a label name contains the separator: the label lists
  \<^verbatim>\<open>["a", "a,a"]\<close> and \<^verbatim>\<open>["a,a", "a"]\<close> hold the same two names in
  different orders and both join to \<^verbatim>\<open>a,a,a\<close>, so the two jobs are counted
  under one key, with count 2.
\<close>

theorem comma_in_label_merges_reordered_jobs:
  "mset [''a'', ''a,a''] = mset [''a,a'', ''a''] \<and>
   [''a'', ''a,a''] \<noteq> [''a,a'', ''a''] \<and>
   fst (aggregate cfg_off
          [mk_job 1 ''A'' ''ok'' [''a'', ''a,a''], mk_job 2 ''A'' ''ok'' [''a,a'', ''a'']]) =
     [(''A'', [(''ok'', [(''a,a,a'', 2)])])]"
proof -
  have "aggregate cfg_off
          [mk_job 1 ''A'' ''ok'' [''a'', ''a,a''], mk_job 2 ''A'' ''ok'' [''a,a'', ''a'']] =
     ([(''A'', [(''ok'', [(''a,a,a'', 2)])])], [])"
    by code_simp
  then show ?thesis by simp
qed

subsection \<open>C8: what publishing changes\<close>

text \<open>
  Claim C8. Publishing a map leaves every gauge whose key is not in the map as it was,
  sets every gauge whose key is in the map to the count of the key (whatever it held
  before), and removes no gauge. Over any number of cycles, a gauge whose key is in none
  of the maps published keeps its value.
\<close>

theorem publish_sets_only_present_keys:
  "(wf_counts m \<longrightarrow>
      (lookup_key m k = None \<longrightarrow> publish m g k = g k) \<and>
      (\<forall>c. lookup_key m k = Some c \<longrightarrow> publish m g k = Some (float64 c)) \<and>
      (g k \<noteq> None \<longrightarrow> publish m g k \<noteq> None)) \<and>
   ((\<forall>outcome\<in>set outcomes. \<forall>resp. fetchAWXJobData outcome = Inr resp \<longrightarrow>
        lookup_key (fst (aggregate cfg (Results resp))) k = None) \<longrightarrow>
      gauges_of (recordAWXMetrics cfg outcomes s) k = gauges_of s k)"
proof (rule conjI)
  show "wf_counts m \<longrightarrow>
      (lookup_key m k = None \<longrightarrow> publish m g k = g k) \<and>
      (\<forall>c. lookup_key m k = Some c \<longrightarrow> publish m g k = Some (float64 c)) \<and>
      (g k \<noteq> None \<longrightarrow> publish m g k \<noteq> None)"
    by (auto simp add: publish_apply split: option.splits)
next
  show "(\<forall>outcome\<in>set outcomes. \<forall>resp. fetchAWXJobData outcome = Inr resp \<longrightarrow>
        lookup_key (fst (aggregate cfg (Results resp))) k = None) \<longrightarrow>
      gauges_of (recordAWXMetrics cfg outcomes s) k = gauges_of s k"
  proof
    assume "\<forall>outcome\<in>set outcomes. \<forall>resp. fetchAWXJobData outcome = Inr resp \<longrightarrow>
        lookup_key (fst (aggregate cfg (Results resp))) k = None"
    then show "gauges_of (recordAWXMetrics cfg outcomes s) k = gauges_of s k"
      by (intro stale_gauge_kept) blast
  qed
qed

theorem publish_sets_only_present_keys_witness:
  "wf_counts counts_B \<and>
   lookup_key counts_B (''A'', ''ok'', ''prod'') = None \<and>
   publish counts_B (gauges_of state_1) (''A'', ''ok'', ''prod'') = Some 2 \<and>
   lookup_key counts_B (''B'', ''failed'', ''dev'') = Some 1 \<and>
   publish counts_B (gauges_of state_2) (''B'', ''failed'', ''dev'') = Some 1 \<and>
   lookup_key (fst (aggregate cfg_A jobs_3)) (''B'', ''failed'', ''dev'') = None \<and>
   gauges_of (recordAWXMetrics cfg_A outcomes_3 state_2) (''B'', ''failed'', ''dev'') = Some 7"
proof -
  note a = publish_sets_only_present_keys [of counts_B "(''A'', ''ok'', ''prod'')"
      "gauges_of state_1" outcomes_3 cfg_A state_2]
  note b = publish_sets_only_present_keys [of counts_B "(''B'', ''failed'', ''dev'')"
      "gauges_of state_2" outcomes_3 cfg_A state_2]
  have la: "lookup_key counts_B (''A'', ''ok'', ''prod'') = None"
    and lb: "lookup_key counts_B (''B'', ''failed'', ''dev'') = Some 1"
    by (simp_all add: counts_B_def lookup_key_def)
  have ga: "gauges_of state_1 (''A'', ''ok'', ''prod'') = Some 2"
    by (simp add: state_1_def)
  have gb: "gauges_of state_2 (''B'', ''failed'', ''dev'') = Some 7"
    by (simp add: state_2_def)
  from a wf_counts_B la ga
  have pa: "publish counts_B (gauges_of state_1) (''A'', ''ok'', ''prod'') = Some 2"
    by simp
  from b wf_counts_B lb
  have pb: "publish counts_B (gauges_of state_2) (''B'', ''failed'', ''dev'') = Some 1"
    by (simp add: float64_def)
  have absent: "lookup_key (fst (aggregate cfg_A jobs_3)) (''B'', ''failed'', ''dev'') = None"
    by (simp add: aggregate_jobs_3_on lookup_key_def)
  have "\<forall>outcome\<in>set outcomes_3. \<forall>resp. fetchAWXJobData outcome = Inr resp \<longrightarrow>
          lookup_key (fst (aggregate cfg_A (Results resp))) (''B'', ''failed'', ''dev'') = None"
    using absent fetch_docs_3 by (auto simp add: outcomes_3_def)
  with b gb
  have r: "gauges_of (recordAWXMetrics cfg_A outcomes_3 state_2) (''B'', ''failed'', ''dev'') = Some 7"
    by simp
  from wf_counts_B la lb pa pb absent r show ?thesis by simp
qed

subsection \<open>C9: the map of a cycle\<close>

text \<open>
  Claim C9. Every key in the map of a cycle has a count of at least 1, which is the
  number of jobs of this cycle's response that pass the filter and have the key, so at
  least one such job exists; the map of no jobs is empty, and the map a cycle publishes
  is the one built from its own response alone.
\<close>

theorem aggregate_map_invariant:
  "(\<forall>c. lookup_key (fst (aggregate cfg jobs)) k = Some c \<longrightarrow>
        1 \<le> c \<and> c = int (occurrences cfg k jobs) \<and>
        (\<exists>job\<in>set jobs. passes_filter cfg job \<and> key_of job = k)) \<and>
   fst (aggregate cfg []) = [] \<and>
   (\<forall>resp. fetchAWXJobData outcome = Inr resp \<longrightarrow>
        gauges_of (cycle cfg outcome s) =
          publish (fst (aggregate cfg (Results resp))) (gauges_of s))"
proof (intro conjI allI impI)
  fix c
  assume a: "lookup_key (fst (aggregate cfg jobs)) k = Some c"
  then have pos: "0 < occurrences cfg k jobs" and c: "c = int (occurrences cfg k jobs)"
    by (auto simp add: lookup_key_aggregate split: if_splits)
  from pos c show "1 \<le> c" by simp
  from c show "c = int (occurrences cfg k jobs)" .
  from pos show "\<exists>job\<in>set jobs. passes_filter cfg job \<and> key_of job = k"
    by (simp add: occurrences_pos_iff)
next
  show "fst (aggregate cfg []) = []" by (simp add: aggregate_def)
next
  fix resp
  assume "fetchAWXJobData outcome = Inr resp"
  then show "gauges_of (cycle cfg outcome s) =
          publish (fst (aggregate cfg (Results resp))) (gauges_of s)"
    by (rule gauges_of_cycle)
qed

theorem aggregate_map_invariant_witness:
  "lookup_key (fst (aggregate cfg_A jobs_3)) (''A'', ''ok'', ''prod'') = Some 2 \<and>
   occurrences cfg_A (''A'', ''ok'', ''prod'') jobs_3 = 2 \<and>
   (\<exists>job\<in>set jobs_3. passes_filter cfg_A job \<and> key_of job = (''A'', ''ok'', ''prod'')) \<and>
   fetchAWXJobData (Responded 200 (Document (response_json docs_3))) = Inr \<lparr>Results = jobs_3\<rparr> \<and>
   gauges_of (cycle cfg_A (Responded 200 (Document (response_json docs_3))) state_1)
     (''A'', ''ok'', ''prod'') = Some 2"
proof -
  note inv = aggregate_map_invariant [of cfg_A jobs_3 "(''A'', ''ok'', ''prod'')"
      "Responded 200 (Document (response_json docs_3))" state_1]
  have l: "lookup_key (fst (aggregate cfg_A jobs_3)) (''A'', ''ok'', ''prod'') = Some 2"
    by (simp add: aggregate_jobs_3_on lookup_key_def)
  from inv l have o: "2 = int (occurrences cfg_A (''A'', ''ok'', ''prod'') jobs_3)"
    and e: "\<exists>job\<in>set jobs_3. passes_filter cfg_A job \<and> key_of job = (''A'', ''ok'', ''prod'')"
    by blast+
  from inv fetch_docs_3
  have "gauges_of (cycle cfg_A (Responded 200 (Document (response_json docs_3))) state_1) =
          publish (fst (aggregate cfg_A (Results \<lparr>Results = jobs_3\<rparr>))) (gauges_of state_1)"
    by blast
  then have g: "gauges_of (cycle cfg_A (Responded 200 (Document (response_json docs_3))) state_1)
     (''A'', ''ok'', ''prod'') = Some 2"
    by (simp add: aggregate_jobs_3_on Set_gauge_def float64_def)
  from l o e g fetch_docs_3 show ?thesis by simp
qed

subsection \<open>C10: empty strings as key components\<close>



end
